theory Spec2Isabelle
  imports Complex_Main "HOL-Library.AList" "HOL-Library.Char_ord" "HOL-Library.List_Lexorder"
begin

section \<open>Python strings\<close>

text \<open>
  A Python \<open>str\<close> is a sequence of code points. The model is \<open>string\<close>, a list of
  \<open>char\<close>, each \<open>char\<close> read as the code point of the same number (0 to 255), so
  \<open>length\<close> is Python's \<open>len\<close>. The character classes below are those of Python 3 on
  that range.
\<close>

datatype error = IndexError | ZeroDivisionError | PipelineError

definition isalnum :: "char \<Rightarrow> bool" where
  \<comment> \<open>\<open>str.isalnum\<close> on one character\<close>
  "isalnum c =
     (let n = (of_char c :: nat)
      in (48 \<le> n \<and> n \<le> 57) \<or> (65 \<le> n \<and> n \<le> 90) \<or> (97 \<le> n \<and> n \<le> 122)
         \<or> n = 170 \<or> n = 178 \<or> n = 179 \<or> n = 181 \<or> n = 185 \<or> n = 186
         \<or> (188 \<le> n \<and> n \<le> 190) \<or> (192 \<le> n \<and> n \<le> 214) \<or> (216 \<le> n \<and> n \<le> 246)
         \<or> 248 \<le> n)"

definition isspace :: "char \<Rightarrow> bool" where
  \<comment> \<open>\<open>str.isspace\<close> on one character; the class \<open>\s\<close> of \<open>re\<close> is the same\<close>
  "isspace c =
     (let n = (of_char c :: nat)
      in (9 \<le> n \<and> n \<le> 13) \<or> (28 \<le> n \<and> n \<le> 32) \<or> n = 133 \<or> n = 160)"

definition lower_char :: "char \<Rightarrow> char" where
  "lower_char c =
     (let n = (of_char c :: nat)
      in if (65 \<le> n \<and> n \<le> 90) \<or> (192 \<le> n \<and> n \<le> 222 \<and> n \<noteq> 215)
         then char_of (n + 32) else c)"

definition lower :: "string \<Rightarrow> string" where
  \<comment> \<open>\<open>str.lower()\<close>\<close>
  "lower s = map lower_char s"

definition strip :: "string \<Rightarrow> string" where
  \<comment> \<open>\<open>str.strip()\<close>: leading and trailing whitespace removed\<close>
  "strip s = rev (dropWhile isspace (rev (dropWhile isspace s)))"

definition strip_chars :: "string \<Rightarrow> string \<Rightarrow> string" where
  \<comment> \<open>\<open>s.strip(chars)\<close>: leading and trailing characters of \<open>chars\<close> removed\<close>
  "strip_chars chars s =
     rev (dropWhile (\<lambda>c. c \<in> set chars) (rev (dropWhile (\<lambda>c. c \<in> set chars) s)))"

definition py_index :: "string \<Rightarrow> int \<Rightarrow> error + char" where
  \<comment> \<open>\<open>text[i]\<close>: a negative index counts from the end, out of range raises\<close>
  "py_index text i =
     (let n = int (length text); j = (if i < 0 then i + n else i)
      in if 0 \<le> j \<and> j < n then Inr (text ! nat j) else Inl IndexError)"

definition slice_bound :: "nat \<Rightarrow> int \<Rightarrow> nat" where
  \<comment> \<open>how a slice reads one of its bounds: from the end when negative, clipped to the text\<close>
  "slice_bound n i = (if i < 0 then nat (max (i + int n) 0) else min (nat i) n)"

definition py_slice :: "string \<Rightarrow> int \<Rightarrow> int \<Rightarrow> string" where
  \<comment> \<open>\<open>text[start:end]\<close>; never raises\<close>
  "py_slice text start end =
     (let s = slice_bound (length text) start; e = slice_bound (length text) end
      in take (e - s) (drop s text))"

section \<open>ner\_wayang.py: cleaning and span repair\<close>

definition CONFIDENCE_THRESHOLD :: real where
  "CONFIDENCE_THRESHOLD = 0.60"

definition BLOCKLIST :: "string set" where
  "BLOCKLIST =
     {''Sang'', ''Para'', ''Yang'', ''Dan'', ''Di'', ''Ke'', ''Dari'', ''Saat'', ''Ketika'',
      ''Maka'', ''Lalu'', ''Akan'', ''Telah'', ''Sudah'', ''Ia'', ''Dia'', ''Mereka'',
      ''Hal''}"

fun replace_marker :: "string \<Rightarrow> string" where
  \<comment> \<open>\<open>word.replace("##", "")\<close>: occurrences found left to right, without overlap\<close>
  "replace_marker (a # b # cs) =
     (if a = CHR ''#'' \<and> b = CHR ''#'' then replace_marker cs
      else a # replace_marker (b # cs))"
| "replace_marker cs = cs"

fun collapse_spaces :: "string \<Rightarrow> string" where
  \<comment> \<open>\<open>re.sub(' +', ' ', word)\<close>: every run of spaces becomes one space\<close>
  "collapse_spaces (a # b # cs) =
     (if a = CHR '' '' \<and> b = CHR '' '' then collapse_spaces (b # cs)
      else a # collapse_spaces (b # cs))"
| "collapse_spaces cs = cs"

definition clean_entity_name :: "string \<Rightarrow> string" where
  "clean_entity_name word =
     (let word = replace_marker word;
          word = strip_chars [CHR '' '', CHR ''.'', CHR '','', CHR '':'', CHR '';'', CHR ''!'',
                              CHR ''?'', CHR 0x22, CHR 0x27, CHR ''('', CHR '')''] word;
          word = collapse_spaces word
      in word)"

function advance_end :: "string \<Rightarrow> int \<Rightarrow> error + int" where
  \<comment> \<open>the \<open>while\<close> loop of \<open>expand_to_full_word\<close>, from \<open>current_end\<close>\<close>
  "advance_end text current_end =
     (if current_end < int (length text) then
        (case py_index text current_end of
           Inl e \<Rightarrow> Inl e
         | Inr c \<Rightarrow> if isalnum c then advance_end text (current_end + 1) else Inr current_end)
      else Inr current_end)"
  by pat_completeness auto
termination
  by (relation "measure (\<lambda>(text, current_end). nat (int (length text) - current_end))") auto

declare advance_end.simps [simp del]

definition expand_to_full_word :: "string \<Rightarrow> int \<Rightarrow> int \<Rightarrow> error + string" where
  "expand_to_full_word text start end =
     (if end \<ge> int (length text) then Inr (py_slice text start end)
      else case advance_end text end of
             Inl e \<Rightarrow> Inl e
           | Inr current_end \<Rightarrow> Inr (py_slice text start current_end))"

section \<open>ner\_wayang.py: text preprocessing\<close>

function sub_whitespace :: "string \<Rightarrow> string" where
  \<comment> \<open>\<open>re.sub(r'\s+', ' ', text)\<close>: every run of whitespace becomes one space\<close>
  "sub_whitespace [] = []"
| "sub_whitespace (c # cs) =
     (if isspace c then CHR '' '' # sub_whitespace (dropWhile isspace cs)
      else c # sub_whitespace cs)"
  by pat_completeness auto
termination
  by (relation "measure length") (auto simp: less_Suc_eq_le length_dropWhile_le)

definition ascii_letter :: "char \<Rightarrow> bool" where
  \<comment> \<open>the class \<open>[a-zA-Z]\<close>\<close>
  "ascii_letter c =
     (let n = (of_char c :: nat) in (65 \<le> n \<and> n \<le> 90) \<or> (97 \<le> n \<and> n \<le> 122))"

fun sub_punctuation :: "string \<Rightarrow> string" where
  \<comment> \<open>\<open>re.sub(r'([.,!?;:])(?=[a-zA-Z])', r'\1 ', text)\<close>: a space is put after a
      punctuation mark that a letter follows\<close>
  "sub_punctuation (a # b # cs) =
     (if a \<in> set ''.,!?;:'' \<and> ascii_letter b then a # CHR '' '' # sub_punctuation (b # cs)
      else a # sub_punctuation (b # cs))"
| "sub_punctuation cs = cs"

function sub_bracket :: "char \<Rightarrow> string \<Rightarrow> string \<Rightarrow> string" where
  \<comment> \<open>\<open>re.sub(r'\s*B\s*', repl, text)\<close> for a bracket \<open>B\<close> that is not whitespace: the
      bracket and the whitespace around it become \<open>repl\<close>\<close>
  "sub_bracket bracket repl text =
     (case dropWhile isspace text of
        [] \<Rightarrow> text
      | c # cs \<Rightarrow>
          if c = bracket then repl @ sub_bracket bracket repl (dropWhile isspace cs)
          else takeWhile isspace text @ c # sub_bracket bracket repl cs)"
  by pat_completeness auto
termination
proof (relation "measure (\<lambda>(bracket, repl, text). length text)")
  show "wf (measure (\<lambda>(bracket, repl, text). length text))"
    by simp
next
  fix bracket :: char and repl t :: string and c cs
  assume d: "dropWhile isspace t = c # cs"
  have "length (dropWhile isspace cs) \<le> length cs"
    by (rule length_dropWhile_le)
  moreover have "length (c # cs) \<le> length t"
    using length_dropWhile_le [of isspace t] d by simp
  ultimately show "((bracket, repl, dropWhile isspace cs), (bracket, repl, t))
      \<in> measure (\<lambda>(bracket, repl, text). length text)"
    by simp
next
  fix bracket :: char and repl t :: string and c cs
  assume d: "dropWhile isspace t = c # cs"
  have "length (c # cs) \<le> length t"
    using length_dropWhile_le [of isspace t] d by simp
  then show "((bracket, repl, cs), (bracket, repl, t))
      \<in> measure (\<lambda>(bracket, repl, text). length text)"
    by simp
qed

declare sub_bracket.simps [simp del]

definition preprocess_text :: "string \<Rightarrow> string" where
  "preprocess_text text =
     (let text = sub_whitespace text;
          text = sub_punctuation text;
          text = sub_bracket (CHR ''('') '' ('' text;
          text = sub_bracket (CHR '')'') '') '' text
      in strip text)"

section \<open>ner\_wayang.py: the entity table\<close>

text \<open>
  A span as the labelling model reports it, the value \<open>unique_entities\<close> keeps under a
  name, and a record of the output list. Scores are Python floats that are only compared
  and copied; they are modelled as reals. \<open>unique_entities\<close> is a \<open>dict\<close>: an association
  list in insertion order, \<open>map_of\<close> reading it and \<open>AList.update\<close> writing it (an
  existing key keeps its place, a new key goes last).
\<close>

record entity =
  entity_group :: string
  score :: real
  start :: int
  end_offset :: int

record data =
  label :: string
  score :: real
  stories :: "string set"

record item =
  name :: string
  label :: string

record entity_record = item +
  confidence :: real
  stories :: "string list"

record row =
  Teks :: string
  Judul :: string

definition process_entity ::
    "string \<Rightarrow> string \<Rightarrow> (string \<times> data) list \<Rightarrow> entity \<Rightarrow> error + (string \<times> data) list" where
  \<comment> \<open>one pass of the loop \<open>for entity in results\<close>; \<open>Inl\<close> is an exception leaving the loop\<close>
  "process_entity text story_title unique_entities entity =
     (let group = entity_group entity;
          score = entity.score entity;
          start = start entity;
          end = end_offset entity
      in if score < CONFIDENCE_THRESHOLD then Inr unique_entities
         else case expand_to_full_word text start end of
                Inl e \<Rightarrow> Inl e
              | Inr full_word_raw \<Rightarrow>
                 (let clean_word = clean_entity_name full_word_raw
                  in if length clean_word < 3 then Inr unique_entities
                     else if clean_word \<in> BLOCKLIST then Inr unique_entities
                     else
                      (let label = (if group = ''PER'' then ''Person''
                                    else if group = ''ORG'' then ''Organization''
                                    else if group = ''LOC'' then ''Location''
                                    else ''Unknown'')
                       in if label \<noteq> ''Unknown'' then
                            (case map_of unique_entities clean_word of
                               None \<Rightarrow>
                                 Inr (AList.update clean_word
                                        \<lparr>data.label = label, data.score = score,
                                         data.stories = {story_title}\<rparr> unique_entities)
                             | Some d \<Rightarrow>
                                 (let d = d\<lparr>data.stories := insert story_title (data.stories d)\<rparr>;
                                      d = (if score > data.score d then d\<lparr>data.score := score\<rparr>
                                           else d)
                                  in Inr (AList.update clean_word d unique_entities)))
                          else Inr unique_entities)))"

fun process_results ::
    "string \<Rightarrow> string \<Rightarrow> (string \<times> data) list \<Rightarrow> entity list \<Rightarrow> (string \<times> data) list" where
  \<comment> \<open>the loop over \<open>results\<close> inside \<open>try\<close>: an exception ends the row, and what the row
      wrote before it stays\<close>
  "process_results text story_title unique_entities [] = unique_entities"
| "process_results text story_title unique_entities (entity # results) =
     (case process_entity text story_title unique_entities entity of
        Inl e \<Rightarrow> unique_entities
      | Inr unique_entities' \<Rightarrow> process_results text story_title unique_entities' results)"

definition process_row ::
    "(string \<Rightarrow> error + entity list) \<Rightarrow> (string \<times> data) list \<Rightarrow> row \<Rightarrow> (string \<times> data) list" where
  \<comment> \<open>the body of \<open>for index, row in df.iterrows()\<close>; \<open>ner_pipeline\<close> is the external model\<close>
  "process_row ner_pipeline unique_entities r =
     (let raw_text = Teks r;
          story_title = strip (Judul r);
          text = preprocess_text raw_text
      in if length text < 5 then unique_entities
         else case ner_pipeline text of
                Inl e \<Rightarrow> unique_entities
              | Inr results \<Rightarrow> process_results text story_title unique_entities results)"

definition format_output :: "(string \<times> data) list \<Rightarrow> entity_record list" where
  \<comment> \<open>the list \<open>final_output\<close>, sorted by name\<close>
  "format_output unique_entities =
     sort_key item.name
       (map (\<lambda>(name, d).
              \<lparr>item.name = name, item.label = data.label d, confidence = data.score d,
               entity_record.stories = sorted_list_of_set (data.stories d)\<rparr>)
            unique_entities)"

definition run_ner_process :: "(string \<Rightarrow> error + entity list) \<Rightarrow> row list \<Rightarrow> entity_record list" where
  \<comment> \<open>from the loaded rows \<open>df\<close> to the list written to the output file\<close>
  "run_ner_process ner_pipeline df =
     format_output (foldl (process_row ner_pipeline) [] df)"

section \<open>evaluate\_ner.py\<close>

definition GOLD_STANDARD :: "item list" where
  "GOLD_STANDARD =
     [\<lparr>item.name = ''Prabu Basukesti'', item.label = ''Person''\<rparr>,
      \<lparr>item.name = ''Patih Jayaloka'', item.label = ''Person''\<rparr>,
      \<lparr>item.name = ''Resi Suganda'', item.label = ''Person''\<rparr>,
      \<lparr>item.name = ''Empu Dewayasa'', item.label = ''Person''\<rparr>,
      \<lparr>item.name = ''Empu Purbageni'', item.label = ''Person''\<rparr>,
      \<lparr>item.name = ''Empu Prawa'', item.label = ''Person''\<rparr>,
      \<lparr>item.name = ''Empu Kanomayasa'', item.label = ''Person''\<rparr>,
      \<lparr>item.name = ''Dewi Kaniraras'', item.label = ''Person''\<rparr>,
      \<lparr>item.name = ''Dewi Marapi'', item.label = ''Person''\<rparr>,
      \<lparr>item.name = ''Resi Kuswala'', item.label = ''Person''\<rparr>,
      \<lparr>item.name = ''Bambang Daneswara'', item.label = ''Person''\<rparr>,
      \<lparr>item.name = ''Prabu Cingkaradewa'', item.label = ''Person''\<rparr>,
      \<lparr>item.name = ''Sri Maharaja Purwacandra'', item.label = ''Person''\<rparr>,
      \<lparr>item.name = ''Ditya Citradana'', item.label = ''Person''\<rparr>,
      \<lparr>item.name = ''Putut Margana'', item.label = ''Person''\<rparr>,
      \<lparr>item.name = ''Indramarkata'', item.label = ''Person''\<rparr>,
      \<lparr>item.name = ''Kalayaksa'', item.label = ''Person''\<rparr>,
      \<lparr>item.name = ''Gajah Barigu'', item.label = ''Person''\<rparr>,
      \<lparr>item.name = ''Garuda Urna'', item.label = ''Person''\<rparr>,
      \<lparr>item.name = ''Naga Wiswana'', item.label = ''Person''\<rparr>,
      \<lparr>item.name = ''Resi Manumanasa'', item.label = ''Person''\<rparr>,
      \<lparr>item.name = ''Bambang Satrukem'', item.label = ''Person''\<rparr>,
      \<lparr>item.name = ''Dewi Nilawati'', item.label = ''Person''\<rparr>,
      \<lparr>item.name = ''Janggan Smara'', item.label = ''Person''\<rparr>,
      \<lparr>item.name = ''Prabu Durapati'', item.label = ''Person''\<rparr>,
      \<lparr>item.name = ''Prabu Basupati'', item.label = ''Person''\<rparr>,
      \<lparr>item.name = ''Prabu Hastimurti'', item.label = ''Person''\<rparr>,
      \<lparr>item.name = ''Resi Basunanda'', item.label = ''Person''\<rparr>,
      \<lparr>item.name = ''Patih Basundara'', item.label = ''Person''\<rparr>,
      \<lparr>item.name = ''Raden Wasanta'', item.label = ''Person''\<rparr>,
      \<lparr>item.name = ''Arya Basusara'', item.label = ''Person''\<rparr>,
      \<lparr>item.name = ''Prabu Daneswara'', item.label = ''Person''\<rparr>,
      \<lparr>item.name = ''Dewi Awanti'', item.label = ''Person''\<rparr>,
      \<lparr>item.name = ''Brahmana Wisaka'', item.label = ''Person''\<rparr>,
      \<lparr>item.name = ''Prabu Sriwahana'', item.label = ''Person''\<rparr>,
      \<lparr>item.name = ''Utarakanda'', item.label = ''Location''\<rparr>,
      \<lparr>item.name = ''Purwakanda'', item.label = ''Location''\<rparr>,
      \<lparr>item.name = ''Daksinakanda'', item.label = ''Location''\<rparr>,
      \<lparr>item.name = ''Pracimakanda'', item.label = ''Location''\<rparr>,
      \<lparr>item.name = ''Padepokan Saptaarga'', item.label = ''Location''\<rparr>,
      \<lparr>item.name = ''Gunung Saptaarga'', item.label = ''Location''\<rparr>,
      \<lparr>item.name = ''Tanah Hindustan'', item.label = ''Location''\<rparr>,
      \<lparr>item.name = ''Tanah Jawa'', item.label = ''Location''\<rparr>,
      \<lparr>item.name = ''Hutan Minangsraya'', item.label = ''Location''\<rparr>,
      \<lparr>item.name = ''Medang Kamulan'', item.label = ''Location''\<rparr>,
      \<lparr>item.name = ''Kerajaan Wirata'', item.label = ''Organization''\<rparr>,
      \<lparr>item.name = ''Kerajaan Duhyapura'', item.label = ''Organization''\<rparr>,
      \<lparr>item.name = ''Kerajaan Gajahoya'', item.label = ''Organization''\<rparr>,
      \<lparr>item.name = ''Kerajaan Medang Kamulan'', item.label = ''Organization''\<rparr>,
      \<lparr>item.name = ''Gilingwesi'', item.label = ''Organization''\<rparr>]"

text \<open>
  The counters of \<open>calculate_metrics\<close>, with the \<open>[MISMATCH]\<close> lines the loop prints:
  the gold name, the gold label and the label of the prediction.
\<close>

record counts =
  tp :: nat
  fp :: nat
  fn :: nat
  strict_tp :: nat
  strict_fp_label_error :: nat
  mismatch_lines :: "(string \<times> string \<times> string) list"

record report = counts +
  total_found_in_gold_set :: nat
  recall :: real
  strict_precision :: real
  f1 :: real
  label_accuracy :: real
  label_mismatch_list :: "string list"

definition by_lower_name :: "('a item_scheme) list \<Rightarrow> (string \<times> 'a item_scheme) list" where
  \<comment> \<open>the comprehension \<open>{item['name'].lower(): item for item in items}\<close>\<close>
  "by_lower_name items = foldl (\<lambda>d item. AList.update (lower (item.name item)) item d) [] items"

definition analyze_gold_item ::
    "(string \<times> entity_record) list \<Rightarrow> counts \<Rightarrow> string \<times> item \<Rightarrow> counts" where
  \<comment> \<open>the body of \<open>for name_lower, gold_item in gold_truth.items()\<close>\<close>
  "analyze_gold_item model_predictions c entry =
     (let name_lower = fst entry; gold_item = snd entry
      in case map_of model_predictions name_lower of
           Some prediction \<Rightarrow>
             if lower (item.label prediction) = lower (item.label gold_item)
             then c\<lparr>tp := tp c + 1, strict_tp := strict_tp c + 1\<rparr>
             else c\<lparr>mismatch_lines := mismatch_lines c @
                        [(item.name gold_item, item.label gold_item, item.label prediction)],
                    strict_fp_label_error := strict_fp_label_error c + 1,
                    fn := fn c + 1\<rparr>
         | None \<Rightarrow> c\<lparr>fn := fn c + 1\<rparr>)"

definition truediv :: "real \<Rightarrow> real \<Rightarrow> error + real" where
  \<comment> \<open>Python's \<open>a / b\<close>, read in the reals\<close>
  "truediv a b = (if b = 0 then Inl ZeroDivisionError else Inr (a / b))"

definition and_then :: "error + 'a \<Rightarrow> ('a \<Rightarrow> error + 'b) \<Rightarrow> error + 'b" where
  \<comment> \<open>sequencing: an exception of the first statement is the exception of both\<close>
  "and_then m f = (case m of Inl e \<Rightarrow> Inl e | Inr x \<Rightarrow> f x)"

definition calculate_metrics :: "item list \<Rightarrow> entity_record list \<Rightarrow> error + report" where
  \<comment> \<open>\<open>calculate_metrics\<close> from the loaded \<open>json_results\<close>, the gold list as a parameter\<close>
  "calculate_metrics gold json_results =
     (let model_predictions = by_lower_name json_results;
          gold_truth = by_lower_name gold;
          c = foldl (analyze_gold_item model_predictions)
                \<lparr>tp = 0, fp = 0, fn = 0, strict_tp = 0, strict_fp_label_error = 0,
                 mismatch_lines = []\<rparr> gold_truth
      in and_then
           (if length gold > 0
            then and_then (truediv (real (tp c)) (real (length gold))) (\<lambda>q. Inr (q * 100))
            else Inr 0)
           (\<lambda>recall.
             let total_found_in_gold_set = strict_tp c + strict_fp_label_error c
             in and_then
                  (if total_found_in_gold_set > 0
                   then and_then (truediv (real (strict_tp c)) (real total_found_in_gold_set))
                          (\<lambda>q. Inr (q * 100))
                   else Inr 0)
                  (\<lambda>strict_precision.
                    and_then
                      (if strict_precision + recall > 0
                       then truediv (2 * (strict_precision * recall)) (strict_precision + recall)
                       else Inr 0)
                      (\<lambda>f1.
                        let label_accuracy = strict_precision;
                            label_mismatch_list =
                              map fst (filter (\<lambda>(k, v).
                                  case map_of model_predictions k of
                                    None \<Rightarrow> False
                                  | Some prediction \<Rightarrow>
                                      lower (item.label prediction) \<noteq> lower (item.label v))
                                gold_truth)
                        in Inr (counts.extend c
                             \<lparr>total_found_in_gold_set = total_found_in_gold_set,
                              recall = recall, strict_precision = strict_precision, f1 = f1,
                              label_accuracy = label_accuracy,
                              label_mismatch_list = label_mismatch_list\<rparr>)))))"

section \<open>Notions the statements use\<close>

text \<open>
  The key function as the specification words it: the lowercased, trimmed name.
\<close>

definition normalize :: "string \<Rightarrow> string" where
  "normalize display_name = lower (strip display_name)"

text \<open>
  A sighting is a span that the loop body lets through to the table: the cleaned name
  it is filed under, the label it proposes, its score and the title of its row.
  \<open>accepted\<close> is the part of the loop body before the table is touched, \<open>merge\<close> the
  part that writes the table; \<open>sightings\<close> lists the sightings of a whole run in the
  order the loop meets them, a row ending at its first exception.
\<close>

record sighting =
  clean_word :: string
  sighted_label :: string
  sighted_score :: real
  story_title :: string

definition accepted :: "string \<Rightarrow> string \<Rightarrow> entity \<Rightarrow> error + sighting option" where
  "accepted text title entity =
     (if entity.score entity < CONFIDENCE_THRESHOLD then Inr None
      else case expand_to_full_word text (start entity) (end_offset entity) of
             Inl e \<Rightarrow> Inl e
           | Inr full_word_raw \<Rightarrow>
              (let w = clean_entity_name full_word_raw;
                   found = (\<lambda>l. Inr (Some \<lparr>clean_word = w, sighted_label = l,
                              sighted_score = entity.score entity, story_title = title\<rparr>))
               in if length w < 3 then Inr None
                  else if w \<in> BLOCKLIST then Inr None
                  else if entity_group entity = ''PER'' then found ''Person''
                  else if entity_group entity = ''ORG'' then found ''Organization''
                  else if entity_group entity = ''LOC'' then found ''Location''
                  else Inr None))"

definition merge :: "sighting \<Rightarrow> (string \<times> data) list \<Rightarrow> (string \<times> data) list" where
  "merge s unique_entities =
     (case map_of unique_entities (clean_word s) of
        None \<Rightarrow>
          AList.update (clean_word s)
            \<lparr>data.label = sighted_label s, data.score = sighted_score s,
             data.stories = {story_title s}\<rparr> unique_entities
      | Some d \<Rightarrow>
          AList.update (clean_word s)
            (d\<lparr>data.stories := insert (story_title s) (data.stories d),
               data.score := max (data.score d) (sighted_score s)\<rparr>) unique_entities)"

fun row_sightings :: "string \<Rightarrow> string \<Rightarrow> entity list \<Rightarrow> sighting list" where
  "row_sightings text title [] = []"
| "row_sightings text title (entity # results) =
     (case accepted text title entity of
        Inl e \<Rightarrow> []
      | Inr None \<Rightarrow> row_sightings text title results
      | Inr (Some s) \<Rightarrow> s # row_sightings text title results)"

definition sightings :: "(string \<Rightarrow> error + entity list) \<Rightarrow> row list \<Rightarrow> sighting list" where
  "sightings ner_pipeline df =
     concat (map (\<lambda>r. let text = preprocess_text (Teks r)
                       in if length text < 5 then []
                          else case ner_pipeline text of
                                 Inl e \<Rightarrow> []
                               | Inr results \<Rightarrow> row_sightings text (strip (Judul r)) results)
                 df)"

definition sightings_of :: "string \<Rightarrow> sighting list \<Rightarrow> sighting list" where
  \<comment> \<open>the sightings filed under one name, in order\<close>
  "sightings_of k ss = filter (\<lambda>s. clean_word s = k) ss"

definition constant_pipeline :: "entity list \<Rightarrow> string \<Rightarrow> error + entity list" where
  \<comment> \<open>an external model that reports the same spans for every text, for the examples\<close>
  "constant_pipeline results text = Inr results"

section \<open>Cleaning\<close>

text \<open>
  C3 (as stated, refuted): cleaning the joined sub-token string "Bam ##bang" does not
  return the single word "Bambang".
\<close>

theorem clean_entity_name_marker_counterexample:
  "clean_entity_name ''Bam ##bang'' \<noteq> ''Bambang''"
  by code_simp

text \<open>
  C3 (amended): cleaning "Bam ##bang" returns the two words "Bam bang". The marker
  "##" is deleted; the space in front of it is not.
\<close>

theorem clean_entity_name_marker:
  "clean_entity_name ''Bam ##bang'' = ''Bam bang''"
  by code_simp

section \<open>Span repair\<close>

lemma py_index_nonneg:
  "0 \<le> i \<Longrightarrow> i < int (length t) \<Longrightarrow> py_index t i = Inr (t ! nat i)"
  by (simp add: py_index_def)

lemma advance_end_nonneg:
  "0 \<le> ce \<Longrightarrow> ce \<le> int (length t) \<Longrightarrow>
   \<exists>r. advance_end t ce = Inr (int r) \<and> nat ce \<le> r \<and> r \<le> length t
       \<and> (\<forall>i. nat ce \<le> i \<and> i < r \<longrightarrow> isalnum (t ! i))
       \<and> (r < length t \<longrightarrow> \<not> isalnum (t ! r))"
proof (induction t ce rule: advance_end.induct)
  case (1 t ce)
  show ?case
  proof (cases "ce < int (length t)")
    case False
    with "1.prems" have "ce = int (length t)" by simp
    then have "advance_end t ce = Inr (int (length t))"
      by (simp add: advance_end.simps)
    with \<open>ce = int (length t)\<close> show ?thesis by auto
  next
    case True
    with "1.prems" have idx: "py_index t ce = Inr (t ! nat ce)"
      by (simp add: py_index_nonneg)
    show ?thesis
    proof (cases "isalnum (t ! nat ce)")
      case False
      with True idx have "advance_end t ce = Inr (int (nat ce))"
        using "1.prems" by (simp add: advance_end.simps)
      moreover have "nat ce < length t" using True "1.prems" by linarith
      ultimately have "advance_end t ce = Inr (int (nat ce)) \<and> nat ce \<le> nat ce
          \<and> nat ce \<le> length t
          \<and> (\<forall>i. nat ce \<le> i \<and> i < nat ce \<longrightarrow> isalnum (t ! i))
          \<and> (nat ce < length t \<longrightarrow> \<not> isalnum (t ! nat ce))"
        using False by auto
      then show ?thesis by (rule exI)
    next
      case alnum: True
      have step: "advance_end t ce = advance_end t (ce + 1)"
        using True idx alnum by (subst advance_end.simps) simp
      from "1.IH" [OF True idx alnum] "1.prems" True
      obtain r where r: "advance_end t (ce + 1) = Inr (int r)"
          "nat (ce + 1) \<le> r" "r \<le> length t"
          "\<forall>i. nat (ce + 1) \<le> i \<and> i < r \<longrightarrow> isalnum (t ! i)"
          "r < length t \<longrightarrow> \<not> isalnum (t ! r)"
        by auto
      have "\<forall>i. nat ce \<le> i \<and> i < r \<longrightarrow> isalnum (t ! i)"
      proof (intro allI impI)
        fix i assume i: "nat ce \<le> i \<and> i < r"
        show "isalnum (t ! i)"
        proof (cases "i = nat ce")
          case True then show ?thesis using alnum by simp
        next
          case False
          with i "1.prems" have "nat (ce + 1) \<le> i" by linarith
          with r(4) i show ?thesis by simp
        qed
      qed
      moreover have "nat ce \<le> r" using r(2) "1.prems" by linarith
      ultimately show ?thesis using step r by auto
    qed
  qed
qed

lemma advance_end_below:
  "ce < - int (length t) \<Longrightarrow> advance_end t ce = Inl IndexError"
  by (subst advance_end.simps) (simp add: py_index_def Let_def)

lemma slice_bound_nat: "slice_bound n (int k) = min k n"
  by (simp add: slice_bound_def)

lemma py_slice_nat: "py_slice t (int s) (int e) = take (e - s) (drop s t)"
  by (cases "s \<le> length t"; cases "e \<le> length t")
     (auto simp add: py_slice_def slice_bound_nat min_def)

lemma length_py_slice:
  "length (py_slice t s e) = slice_bound (length t) e - slice_bound (length t) s"
  by (auto simp add: py_slice_def Let_def slice_bound_def)

text \<open>
  C6: span repair follows the stated algorithm. When \<open>end\<close> is at or past the end of
  the text the result is \<open>text[start:end]\<close> unchanged. Otherwise, for an end offset
  \<open>k\<close> inside the text, the result is \<open>text[start:r]\<close> where \<open>r\<close> is reached from \<open>k\<close>
  over alphanumeric characters only and is the end of the text or the position of a
  character that is not alphanumeric. On "Arya Basusara adalah" with offsets 0 and 8 the
  result is "Arya Basusara". Offsets are character positions, so the end offset is a
  natural number here; \<open>start\<close> is any integer, read as the slice reads it.
\<close>

theorem expand_to_full_word_algorithm:
  "(int (length t) \<le> e \<longrightarrow> expand_to_full_word t s e = Inr (py_slice t s e))
   \<and> (k < length t \<longrightarrow>
      (\<exists>r. expand_to_full_word t s (int k) = Inr (py_slice t s (int r))
           \<and> k \<le> r \<and> r \<le> length t
           \<and> (\<forall>i. k \<le> i \<and> i < r \<longrightarrow> isalnum (t ! i))
           \<and> (r < length t \<longrightarrow> \<not> isalnum (t ! r))))
   \<and> expand_to_full_word ''Arya Basusara adalah'' 0 8 = Inr ''Arya Basusara''"
proof (intro conjI impI)
  assume "int (length t) \<le> e"
  then show "expand_to_full_word t s e = Inr (py_slice t s e)"
    by (simp add: expand_to_full_word_def)
next
  assume k: "k < length t"
  from advance_end_nonneg [of "int k" t] k
  obtain r where r: "advance_end t (int k) = Inr (int r)" "k \<le> r" "r \<le> length t"
      "\<forall>i. k \<le> i \<and> i < r \<longrightarrow> isalnum (t ! i)"
      "r < length t \<longrightarrow> \<not> isalnum (t ! r)"
    by auto
  from k r(1) have "expand_to_full_word t s (int k) = Inr (py_slice t s (int r))"
    by (simp add: expand_to_full_word_def)
  with r show "\<exists>r. expand_to_full_word t s (int k) = Inr (py_slice t s (int r))
           \<and> k \<le> r \<and> r \<le> length t
           \<and> (\<forall>i. k \<le> i \<and> i < r \<longrightarrow> isalnum (t ! i))
           \<and> (r < length t \<longrightarrow> \<not> isalnum (t ! r))"
    by blast
next
  show "expand_to_full_word ''Arya Basusara adalah'' 0 8 = Inr ''Arya Basusara''"
    by code_simp
qed

theorem expand_to_full_word_algorithm_witness:
  "int (length ''Arya Basusara adalah'') \<le> 20
   \<and> expand_to_full_word ''Arya Basusara adalah'' 5 20 = Inr ''Basusara adalah''
   \<and> 8 < length ''Arya Basusara adalah''
   \<and> (\<exists>r. expand_to_full_word ''Arya Basusara adalah'' 0 8
            = Inr (py_slice ''Arya Basusara adalah'' 0 (int r)) \<and> r = 13)"
proof -
  let ?t = "''Arya Basusara adalah''"
  have a: "int (length ?t) \<le> 20" by simp
  have b: "(8::nat) < length ?t" by simp
  have c: "py_slice ?t 5 20 = ''Basusara adalah''" by code_simp
  from expand_to_full_word_algorithm [of ?t 20 5 8] a
  have "expand_to_full_word ?t 5 20 = Inr (py_slice ?t 5 20)" by blast
  with c have d: "expand_to_full_word ?t 5 20 = Inr ''Basusara adalah''" by simp
  from expand_to_full_word_algorithm [of ?t 20 0 8] b
  obtain r where r: "expand_to_full_word ?t 0 (int 8) = Inr (py_slice ?t 0 (int r))"
      "8 \<le> r" "r \<le> length ?t" "\<forall>i. 8 \<le> i \<and> i < r \<longrightarrow> isalnum (?t ! i)"
      "r < length ?t \<longrightarrow> \<not> isalnum (?t ! r)"
    by blast
  have "expand_to_full_word ?t 0 8 = Inr ''Arya Basusara''" by code_simp
  with r(1) have "py_slice ?t 0 (int r) = ''Arya Basusara''" by simp
  then have "length (py_slice ?t 0 (int r)) = 13" by simp
  with r(3) have "r = 13" by (simp add: length_py_slice slice_bound_def)
  with r(1) a b d show ?thesis by auto
qed

text \<open>
  C8: repair never shrinks a span. For valid offsets, \<open>0 \<le> start \<le> end \<le> len(text)\<close>,
  repair returns a string of length at least \<open>end - start\<close>.
\<close>

theorem expand_to_full_word_never_shrinks:
  assumes "0 \<le> s" and "s \<le> e" and "e \<le> int (length t)"
  shows "\<exists>w. expand_to_full_word t s e = Inr w \<and> nat (e - s) \<le> length w"
proof (cases "e = int (length t)")
  case True
  then have "expand_to_full_word t s e = Inr (py_slice t s e)"
    by (simp add: expand_to_full_word_def)
  moreover have "length (py_slice t s e) = nat (e - s)"
    using assms True by (simp add: length_py_slice slice_bound_def)
  ultimately show ?thesis by simp
next
  case False
  with assms have lt: "e < int (length t)" by simp
  from advance_end_nonneg [of e t] assms
  obtain r where r: "advance_end t e = Inr (int r)" "nat e \<le> r" "r \<le> length t"
    by auto
  from lt r(1) have "expand_to_full_word t s e = Inr (py_slice t s (int r))"
    by (simp add: expand_to_full_word_def)
  moreover have "nat (e - s) \<le> length (py_slice t s (int r))"
    using assms r(2,3) by (simp add: length_py_slice slice_bound_def)
  ultimately show ?thesis by simp
qed

theorem expand_to_full_word_never_shrinks_witness:
  "(0::int) \<le> 0 \<and> (0::int) \<le> 8 \<and> 8 \<le> int (length ''Arya Basusara adalah'')
   \<and> (\<exists>w. expand_to_full_word ''Arya Basusara adalah'' 0 8 = Inr w
           \<and> nat (8 - 0) \<le> length w)"
  using expand_to_full_word_never_shrinks [of 0 8 "''Arya Basusara adalah''"] by simp

section \<open>Evaluation metrics\<close>

lemma truediv_pos: "0 < b \<Longrightarrow> truediv a b = Inr (a / b)"
  by (simp add: truediv_def)

text \<open>
  C4: for every gold list and every entity table, \<open>calculate_metrics\<close> returns a
  report and raises no division error. Recall and strict precision are
  \<open>count / denominator * 100\<close> when the denominator is positive and 0 when it is 0; F1 is
  \<open>2 * (p * r) / (p + r)\<close> when \<open>p + r\<close> is positive and 0 otherwise. In particular
  strict precision is 0 when no gold item is found, and F1 is 0 when recall and strict
  precision are both 0. The divisions are those of the reals.
\<close>

theorem calculate_metrics_never_raises:
  "\<exists>r. calculate_metrics gold json_results = Inr r
     \<and> recall r = (if 0 < length gold then real (tp r) / real (length gold) * 100 else 0)
     \<and> total_found_in_gold_set r = strict_tp r + strict_fp_label_error r
     \<and> strict_precision r =
         (if 0 < total_found_in_gold_set r
          then real (strict_tp r) / real (total_found_in_gold_set r) * 100 else 0)
     \<and> f1 r = (if 0 < strict_precision r + recall r
               then 2 * (strict_precision r * recall r) / (strict_precision r + recall r)
               else 0)
     \<and> (total_found_in_gold_set r = 0 \<longrightarrow> strict_precision r = 0)
     \<and> (recall r = 0 \<and> strict_precision r = 0 \<longrightarrow> f1 r = 0)"
  by (simp add: calculate_metrics_def Let_def and_then_def truediv_def counts.defs report.defs)

theorem calculate_metrics_never_raises_witness:
  "\<exists>r. calculate_metrics [\<lparr>item.name = ''Prabu Basukesti'', item.label = ''Person''\<rparr>] [] = Inr r
     \<and> total_found_in_gold_set r = 0 \<and> recall r = 0 \<and> strict_precision r = 0 \<and> f1 r = 0"
proof -
  let ?gold = "[\<lparr>item.name = ''Prabu Basukesti'', item.label = ''Person''\<rparr>]"
  from calculate_metrics_never_raises [of ?gold "[]"]
  obtain r where all: "calculate_metrics ?gold [] = Inr r
     \<and> recall r = (if 0 < length ?gold then real (tp r) / real (length ?gold) * 100 else 0)
     \<and> total_found_in_gold_set r = strict_tp r + strict_fp_label_error r
     \<and> strict_precision r =
         (if 0 < total_found_in_gold_set r
          then real (strict_tp r) / real (total_found_in_gold_set r) * 100 else 0)
     \<and> f1 r = (if 0 < strict_precision r + recall r
               then 2 * (strict_precision r * recall r) / (strict_precision r + recall r)
               else 0)
     \<and> (total_found_in_gold_set r = 0 \<longrightarrow> strict_precision r = 0)
     \<and> (recall r = 0 \<and> strict_precision r = 0 \<longrightarrow> f1 r = 0)" ..
  then have r: "calculate_metrics ?gold [] = Inr r"
      "recall r = (if 0 < length ?gold then real (tp r) / real (length ?gold) * 100 else 0)"
      "total_found_in_gold_set r = 0 \<longrightarrow> strict_precision r = 0"
      "recall r = 0 \<and> strict_precision r = 0 \<longrightarrow> f1 r = 0"
    by simp_all
  have "calculate_metrics ?gold []
      = Inr \<lparr>tp = 0, fp = 0, fn = 1, strict_tp = 0, strict_fp_label_error = 0,
          mismatch_lines = [], total_found_in_gold_set = 0, recall = 0, strict_precision = 0,
          f1 = 0, label_accuracy = 0, label_mismatch_list = []\<rparr>"
    by code_simp
  with r(1) have v: "total_found_in_gold_set r = 0" "tp r = 0" by auto
  from v(2) r(2) have rc: "recall r = 0" by simp
  from v(1) r(3) have sp: "strict_precision r = 0" by simp
  from rc sp r(4) have "f1 r = 0" by simp
  with r(1) v(1) rc sp show ?thesis by blast
qed

text \<open>
  C9: for every gold list and every entity table, the report's label accuracy equals
  its strict precision.
\<close>

theorem label_accuracy_is_strict_precision:
  "\<exists>r. calculate_metrics gold json_results = Inr r \<and> label_accuracy r = strict_precision r"
  by (simp add: calculate_metrics_def Let_def and_then_def truediv_def counts.defs report.defs)

theorem label_accuracy_is_strict_precision_witness:
  "\<exists>r. calculate_metrics
          [\<lparr>item.name = ''Arya Basusara'', item.label = ''Person''\<rparr>]
          [\<lparr>item.name = ''Arya Basusara'', item.label = ''Person'', confidence = 0.61,
            entity_record.stories = [''Sakri Lahir'']\<rparr>] = Inr r
       \<and> label_accuracy r = strict_precision r \<and> strict_precision r = 100"
proof -
  let ?gold = "[\<lparr>item.name = ''Arya Basusara'', item.label = ''Person''\<rparr>]"
  let ?json = "[\<lparr>item.name = ''Arya Basusara'', item.label = ''Person'', confidence = 0.61,
            entity_record.stories = [''Sakri Lahir'']\<rparr>]"
  from label_accuracy_is_strict_precision [of ?gold ?json]
  obtain r where r: "calculate_metrics ?gold ?json = Inr r" "label_accuracy r = strict_precision r"
    by blast
  have "calculate_metrics ?gold ?json
      = Inr \<lparr>tp = 1, fp = 0, fn = 0, strict_tp = 1, strict_fp_label_error = 0,
          mismatch_lines = [], total_found_in_gold_set = 1, recall = 100, strict_precision = 100,
          f1 = 100, label_accuracy = 100, label_mismatch_list = []\<rparr>"
    by code_simp
  with r(1) have "strict_precision r = 100" by auto
  with r show ?thesis by auto
qed

text \<open>
  C2: the harness on the gold list Prabu Basukesti (Person), Medang Kamulan (Location)
  and the predictions prabu basukesti (Person), medang kamulan (Person). It counts one
  true positive and one label error, reports recall, strict precision and F1 of 50, and
  prints one mismatch line, for Medang Kamulan with gold label Location and model label
  Person. The counter \<open>fn\<close>, which the report prints as "Completely Missed", is 1: the
  mislabelled item is counted in it although it was found.
\<close>

theorem calculate_metrics_scenario:
  "calculate_metrics
     [\<lparr>item.name = ''Prabu Basukesti'', item.label = ''Person''\<rparr>,
      \<lparr>item.name = ''Medang Kamulan'', item.label = ''Location''\<rparr>]
     [\<lparr>item.name = ''prabu basukesti'', item.label = ''Person'', confidence = 0.9,
       entity_record.stories = [''Sakri Lahir'']\<rparr>,
      \<lparr>item.name = ''medang kamulan'', item.label = ''Person'', confidence = 0.8,
       entity_record.stories = [''Sakri Lahir'']\<rparr>]
   = Inr \<lparr>tp = 1, fp = 0, fn = 1, strict_tp = 1, strict_fp_label_error = 1,
          mismatch_lines = [(''Medang Kamulan'', ''Location'', ''Person'')],
          total_found_in_gold_set = 2, recall = 50, strict_precision = 50, f1 = 50,
          label_accuracy = 50, label_mismatch_list = [''medang kamulan'']\<rparr>"
  by code_simp

section \<open>The entity table\<close>

text \<open>
  The loop of \<open>run_ner_process\<close> is a fold of \<open>merge\<close> over the sightings of the run.
\<close>

lemma process_entity_accepted:
  "process_entity t title ue e =
     (case accepted t title e of
        Inl err \<Rightarrow> Inl err
      | Inr None \<Rightarrow> Inr ue
      | Inr (Some s) \<Rightarrow> Inr (merge s ue))"
  by (auto simp add: process_entity_def accepted_def merge_def Let_def max_def
           split: sum.splits option.splits)

lemma process_results_sightings:
  "process_results t title ue es = fold merge (row_sightings t title es) ue"
  by (induction es arbitrary: ue)
     (auto simp add: process_entity_accepted split: sum.splits option.splits)

lemma process_row_sightings:
  "process_row p ue r = fold merge (sightings p [r]) ue"
  by (auto simp add: process_row_def sightings_def Let_def process_results_sightings
           split: sum.splits)

lemma sightings_append: "sightings p (xs @ ys) = sightings p xs @ sightings p ys"
  by (simp add: sightings_def)

lemma foldl_process_row:
  "foldl (process_row p) ue df = fold merge (sightings p df) ue"
proof (induction df arbitrary: ue)
  case Nil
  show ?case by (simp add: sightings_def)
next
  case (Cons r df)
  have split: "sightings p (r # df) = sightings p [r] @ sightings p df"
    using sightings_append [of p "[r]" df] by simp
  have "foldl (process_row p) ue (r # df) = foldl (process_row p) (process_row p ue r) df"
    by simp
  also have "\<dots> = fold merge (sightings p df) (process_row p ue r)"
    by (rule Cons.IH)
  also have "\<dots> = fold merge (sightings p df) (fold merge (sightings p [r]) ue)"
    by (simp only: process_row_sightings)
  also have "\<dots> = fold merge (sightings p (r # df)) ue"
    by (simp only: split fold_append comp_apply)
  finally show ?case .
qed

lemma keys_merge:
  "fst ` set (merge s ue) = insert (clean_word s) (fst ` set ue)"
  by (simp add: merge_def dom_update split: option.splits)

lemma distinct_merge:
  "distinct (map fst ue) \<Longrightarrow> distinct (map fst (merge s ue))"
  by (simp add: merge_def distinct_update split: option.splits)

lemma keys_fold_merge:
  "fst ` set (fold merge ss ue) = fst ` set ue \<union> clean_word ` set ss"
  by (induction ss arbitrary: ue) (auto simp add: keys_merge)

lemma distinct_fold_merge:
  "distinct (map fst ue) \<Longrightarrow> distinct (map fst (fold merge ss ue))"
  by (induction ss arbitrary: ue) (auto simp add: distinct_merge)

lemma map_of_merge_other:
  "k \<noteq> clean_word s \<Longrightarrow> map_of (merge s ue) k = map_of ue k"
  by (simp add: merge_def update_conv' split: option.splits)

lemma map_of_merge_new:
  "map_of ue (clean_word s) = None \<Longrightarrow>
   map_of (merge s ue) (clean_word s)
     = Some \<lparr>data.label = sighted_label s, data.score = sighted_score s,
             data.stories = {story_title s}\<rparr>"
  by (simp add: merge_def update_conv')

lemma map_of_merge_old:
  "map_of ue (clean_word s) = Some d \<Longrightarrow>
   map_of (merge s ue) (clean_word s)
     = Some (d\<lparr>data.stories := insert (story_title s) (data.stories d),
                data.score := max (data.score d) (sighted_score s)\<rparr>)"
  by (simp add: merge_def update_conv')

lemma Max_insert_max:
  "finite A \<Longrightarrow> Max (insert (max a b) A) = Max (insert (a::real) (insert b A))"
  by (cases "A = {}") (simp_all add: max.assoc)

lemma fold_merge_present:
  "map_of ue k = Some d \<Longrightarrow>
   map_of (fold merge ss ue) k
     = Some (d\<lparr>data.stories := data.stories d \<union> story_title ` set (sightings_of k ss),
                data.score := Max (insert (data.score d)
                                     (sighted_score ` set (sightings_of k ss)))\<rparr>)"
proof (induction ss arbitrary: ue d)
  case Nil
  then show ?case by (simp add: sightings_of_def)
next
  case (Cons s ss)
  show ?case
  proof (cases "clean_word s = k")
    case False
    then have "map_of (merge s ue) k = Some d"
      using Cons.prems by (simp add: map_of_merge_other)
    from Cons.IH [OF this] False show ?thesis by (simp add: sightings_of_def)
  next
    case True
    let ?d = "d\<lparr>data.stories := insert (story_title s) (data.stories d),
                  data.score := max (data.score d) (sighted_score s)\<rparr>"
    have "map_of (merge s ue) k = Some ?d"
      using Cons.prems True map_of_merge_old [of ue s d] by simp
    from Cons.IH [OF this] True show ?thesis
      by (simp add: sightings_of_def Max_insert_max insert_commute)
  qed
qed

lemma fold_merge_absent:
  "map_of ue k = None \<Longrightarrow>
   map_of (fold merge ss ue) k
     = (case sightings_of k ss of
          [] \<Rightarrow> None
        | s0 # ks \<Rightarrow>
            Some \<lparr>data.label = sighted_label s0,
                  data.score = Max (sighted_score ` set (s0 # ks)),
                  data.stories = story_title ` set (s0 # ks)\<rparr>)"
proof (induction ss arbitrary: ue)
  case Nil
  then show ?case by (simp add: sightings_of_def)
next
  case (Cons s ss)
  show ?case
  proof (cases "clean_word s = k")
    case False
    then have "map_of (merge s ue) k = None"
      using Cons.prems by (simp add: map_of_merge_other)
    from Cons.IH [OF this] False show ?thesis by (simp add: sightings_of_def)
  next
    case True
    let ?d = "\<lparr>data.label = sighted_label s, data.score = sighted_score s,
               data.stories = {story_title s}\<rparr>"
    have "map_of (merge s ue) k = Some ?d"
      using Cons.prems True map_of_merge_new [of ue s] by simp
    from fold_merge_present [OF this, of ss] True show ?thesis
      by (simp add: sightings_of_def)
  qed
qed

lemma set_format_output:
  "set (format_output ue)
     = (\<lambda>(name, d). \<lparr>item.name = name, item.label = data.label d, confidence = data.score d,
                       entity_record.stories = sorted_list_of_set (data.stories d)\<rparr>) ` set ue"
  by (simp add: format_output_def set_sort)

lemma names_format_output:
  "set (map item.name (format_output ue)) = fst ` set ue"
  by (force simp add: set_format_output)

lemma distinct_format_output:
  assumes "distinct (map fst ue)"
  shows "distinct (map item.name (format_output ue))"
proof -
  let ?g = "\<lambda>(name, d). \<lparr>item.name = name, item.label = data.label d, confidence = data.score d,
                       entity_record.stories = sorted_list_of_set (data.stories d)\<rparr>"
  have m: "map item.name (map ?g ue) = map fst ue"
    by (simp add: comp_def split_def)
  from assms have d: "distinct (map item.name (map ?g ue))"
    by (simp only: m)
  then have "distinct (map ?g ue) \<and> inj_on item.name (set (map ?g ue))"
    by (simp only: distinct_map)
  then have "distinct (sort_key item.name (map ?g ue))
      \<and> inj_on item.name (set (sort_key item.name (map ?g ue)))"
    by (simp only: distinct_sort set_sort)
  then show ?thesis
    by (simp only: format_output_def distinct_map)
qed

lemma run_ner_process_sightings:
  "run_ner_process p df = format_output (fold merge (sightings p df) [])"
  by (simp add: run_ner_process_def foldl_process_row)

lemma table_entry:
  "(k, d) \<in> set (fold merge ss []) \<longleftrightarrow>
     (\<exists>s0 ks. sightings_of k ss = s0 # ks
        \<and> d = \<lparr>data.label = sighted_label s0,
                 data.score = Max (sighted_score ` set (s0 # ks)),
                 data.stories = story_title ` set (s0 # ks)\<rparr>)"
proof -
  have "distinct (map fst (fold merge ss []))"
    by (rule distinct_fold_merge) simp
  then have "(k, d) \<in> set (fold merge ss []) \<longleftrightarrow> map_of (fold merge ss []) k = Some d"
    by simp
  also have "\<dots> \<longleftrightarrow> (\<exists>s0 ks. sightings_of k ss = s0 # ks
        \<and> d = \<lparr>data.label = sighted_label s0,
                 data.score = Max (sighted_score ` set (s0 # ks)),
                 data.stories = story_title ` set (s0 # ks)\<rparr>)"
    using fold_merge_absent [of "[]" k ss] by (auto split: list.splits)
  finally show ?thesis .
qed

lemma run_entry:
  "r \<in> set (run_ner_process p df) \<longleftrightarrow>
     (\<exists>s0 ks. sightings_of (item.name r) (sightings p df) = s0 # ks
        \<and> r = \<lparr>item.name = item.name r, item.label = sighted_label s0,
                 confidence = Max (sighted_score ` set (s0 # ks)),
                 entity_record.stories = sorted_list_of_set (story_title ` set (s0 # ks))\<rparr>)"
  (is "?L \<longleftrightarrow> ?R")
proof
  assume ?L
  then obtain k d where kd: "(k, d) \<in> set (fold merge (sightings p df) [])"
      and r: "r = \<lparr>item.name = k, item.label = data.label d, confidence = data.score d,
                    entity_record.stories = sorted_list_of_set (data.stories d)\<rparr>"
    by (auto simp add: run_ner_process_sightings set_format_output)
  from kd obtain s0 ks where "sightings_of k (sightings p df) = s0 # ks"
      and "d = \<lparr>data.label = sighted_label s0,
                 data.score = Max (sighted_score ` set (s0 # ks)),
                 data.stories = story_title ` set (s0 # ks)\<rparr>"
    unfolding table_entry by blast
  with r show ?R by simp
next
  assume ?R
  then obtain s0 ks where s: "sightings_of (item.name r) (sightings p df) = s0 # ks"
      and r: "r = \<lparr>item.name = item.name r, item.label = sighted_label s0,
                 confidence = Max (sighted_score ` set (s0 # ks)),
                 entity_record.stories = sorted_list_of_set (story_title ` set (s0 # ks))\<rparr>"
    by blast
  let ?d = "\<lparr>data.label = sighted_label s0,
                 data.score = Max (sighted_score ` set (s0 # ks)),
                 data.stories = story_title ` set (s0 # ks)\<rparr>"
  from s have "(item.name r, ?d) \<in> set (fold merge (sightings p df) [])"
    unfolding table_entry by blast
  then have "\<lparr>item.name = item.name r, item.label = data.label ?d, confidence = data.score ?d,
               entity_record.stories = sorted_list_of_set (data.stories ?d)\<rparr>
             \<in> set (run_ner_process p df)"
    unfolding run_ner_process_sightings set_format_output by force
  with r show ?L by simp
qed

lemma accepted_valid:
  assumes "accepted t title e = Inr (Some s)"
  shows "CONFIDENCE_THRESHOLD \<le> sighted_score s
     \<and> sighted_label s \<in> {''Person'', ''Organization'', ''Location''}"
  using assms
  by (auto simp add: accepted_def Let_def split: if_splits sum.splits)

lemma row_sightings_valid:
  "s \<in> set (row_sightings t title es) \<Longrightarrow>
   CONFIDENCE_THRESHOLD \<le> sighted_score s
     \<and> sighted_label s \<in> {''Person'', ''Organization'', ''Location''}"
proof (induction es)
  case Nil
  then show ?case by simp
next
  case (Cons e es)
  show ?case
  proof (cases "accepted t title e")
    case (Inl err)
    with Cons.prems show ?thesis by simp
  next
    case (Inr opt)
    show ?thesis
    proof (cases opt)
      case None
      with Inr Cons show ?thesis by simp
    next
      case (Some s')
      with Inr have "accepted t title e = Inr (Some s')" by simp
      from accepted_valid [OF this] Inr Some Cons show ?thesis by auto
    qed
  qed
qed

lemma sightings_valid:
  "s \<in> set (sightings p df) \<Longrightarrow>
   CONFIDENCE_THRESHOLD \<le> sighted_score s
     \<and> sighted_label s \<in> {''Person'', ''Organization'', ''Location''}"
  using row_sightings_valid
  by (auto simp add: sightings_def Let_def split: if_splits sum.splits)

lemma sightings_of_subset: "set (sightings_of k ss) \<subseteq> set ss"
  by (auto simp add: sightings_of_def)

lemma sightings_of_key: "s \<in> set (sightings_of k ss) \<Longrightarrow> clean_word s = k"
  by (simp add: sightings_of_def)

lemma sightings_of_mem: "s \<in> set ss \<Longrightarrow> s \<in> set (sightings_of (clean_word s) ss)"
  by (simp add: sightings_of_def)

lemma in_set_update:
  "x \<in> set (AList.update k v al) \<Longrightarrow> x = (k, v) \<or> x \<in> set al"
  by (induction al) (auto split: if_splits)

lemma merge_keeps_bound:
  assumes "CONFIDENCE_THRESHOLD \<le> sighted_score s"
      and "\<forall>(k, d) \<in> set ue. CONFIDENCE_THRESHOLD \<le> data.score d"
  shows "\<forall>(k, d) \<in> set (merge s ue). CONFIDENCE_THRESHOLD \<le> data.score d"
proof (cases "map_of ue (clean_word s)")
  case None
  then show ?thesis
    using assms by (auto simp add: merge_def dest!: in_set_update)
next
  case (Some d0)
  then have "(clean_word s, d0) \<in> set ue" by (rule map_of_SomeD)
  with assms(2) have "CONFIDENCE_THRESHOLD \<le> data.score d0" by auto
  with Some show ?thesis
    using assms by (auto simp add: merge_def dest!: in_set_update)
qed

lemma fold_merge_keeps_bound:
  "\<forall>s \<in> set ss. CONFIDENCE_THRESHOLD \<le> sighted_score s \<Longrightarrow>
   \<forall>(k, d) \<in> set ue. CONFIDENCE_THRESHOLD \<le> data.score d \<Longrightarrow>
   \<forall>(k, d) \<in> set (fold merge ss ue). CONFIDENCE_THRESHOLD \<le> data.score d"
proof (induction ss arbitrary: ue)
  case Nil
  then show ?case by simp
next
  case (Cons s ss)
  from Cons.prems have "\<forall>(k, d) \<in> set (merge s ue). CONFIDENCE_THRESHOLD \<le> data.score d"
    by (intro merge_keeps_bound) auto
  with Cons.IH [of "merge s ue"] Cons.prems(1) show ?case by simp
qed

section \<open>Filters and bounds\<close>

lemma rejected_keeps_table:
  assumes "entity.score e < CONFIDENCE_THRESHOLD \<or> entity_group e \<notin> {''PER'', ''ORG'', ''LOC''}"
  shows "process_results t title ue [e] = ue"
proof -
  from assms have "accepted t title e = Inr None \<or> (\<exists>err. accepted t title e = Inl err)"
    by (auto simp add: accepted_def Let_def split: sum.splits)
  then show ?thesis
    by (auto simp add: process_entity_accepted)
qed

lemma run_entry_bounds:
  assumes "r \<in> set (run_ner_process ner_pipeline df)"
  shows "CONFIDENCE_THRESHOLD \<le> confidence r
       \<and> item.label r \<in> {''Person'', ''Organization'', ''Location''}"
proof -
  from assms obtain s0 ks
    where s: "sightings_of (item.name r) (sightings ner_pipeline df) = s0 # ks"
      and r: "r = \<lparr>item.name = item.name r, item.label = sighted_label s0,
                 confidence = Max (sighted_score ` set (s0 # ks)),
                 entity_record.stories = sorted_list_of_set (story_title ` set (s0 # ks))\<rparr>"
    unfolding run_entry by blast
  have sub: "set (s0 # ks) \<subseteq> set (sightings ner_pipeline df)"
    using sightings_of_subset [of "item.name r" "sightings ner_pipeline df"] s by simp
  have "Max (sighted_score ` set (s0 # ks)) \<in> sighted_score ` set (s0 # ks)"
    by (rule Max_in) simp_all
  then obtain s' where "s' \<in> set (s0 # ks)"
      and m: "Max (sighted_score ` set (s0 # ks)) = sighted_score s'"
    by blast
  with sub have "s' \<in> set (sightings ner_pipeline df)" by blast
  from sightings_valid [OF this] m
  have c: "CONFIDENCE_THRESHOLD \<le> Max (sighted_score ` set (s0 # ks))"
    by simp
  from sub have "s0 \<in> set (sightings ner_pipeline df)" by simp
  from sightings_valid [OF this]
  have l: "sighted_label s0 \<in> {''Person'', ''Organization'', ''Location''}" by simp
  have "confidence r = Max (sighted_score ` set (s0 # ks))" by (subst r) simp
  moreover have "item.label r = sighted_label s0" by (subst r) simp
  ultimately show ?thesis using c l by simp
qed

lemma process_results_keeps_bound:
  assumes "\<forall>(k, d) \<in> set ue. CONFIDENCE_THRESHOLD \<le> data.score d"
  shows "\<forall>(k, d) \<in> set (process_results t title ue es). CONFIDENCE_THRESHOLD \<le> data.score d"
proof -
  have "\<forall>s \<in> set (row_sightings t title es). CONFIDENCE_THRESHOLD \<le> sighted_score s"
    using row_sightings_valid by blast
  from fold_merge_keeps_bound [OF this assms] show ?thesis
    by (simp add: process_results_sightings)
qed

text \<open>
  C10: every record of the final table has confidence at least the threshold and a label
  among Person, Organization and Location. A span below the threshold, or with any other
  label group, leaves the table as it was. Merging keeps the lower bound: if every stored
  score is at least the threshold before a row's spans are processed, so it is after.
\<close>

theorem table_bounds:
  "(\<forall>r \<in> set (run_ner_process ner_pipeline df).
       CONFIDENCE_THRESHOLD \<le> confidence r
       \<and> item.label r \<in> {''Person'', ''Organization'', ''Location''})
   \<and> (entity.score e < CONFIDENCE_THRESHOLD \<or> entity_group e \<notin> {''PER'', ''ORG'', ''LOC''}
        \<longrightarrow> process_results t title ue [e] = ue)
   \<and> ((\<forall>(k, d) \<in> set ue. CONFIDENCE_THRESHOLD \<le> data.score d)
        \<longrightarrow> (\<forall>(k, d) \<in> set (process_results t title ue es).
               CONFIDENCE_THRESHOLD \<le> data.score d))"
proof -
  have a: "\<forall>r \<in> set (run_ner_process ner_pipeline df).
       CONFIDENCE_THRESHOLD \<le> confidence r
       \<and> item.label r \<in> {''Person'', ''Organization'', ''Location''}"
    using run_entry_bounds by blast
  have b: "entity.score e < CONFIDENCE_THRESHOLD \<or> entity_group e \<notin> {''PER'', ''ORG'', ''LOC''}
        \<longrightarrow> process_results t title ue [e] = ue"
    using rejected_keeps_table by blast
  have c: "(\<forall>(k, d) \<in> set ue. CONFIDENCE_THRESHOLD \<le> data.score d)
        \<longrightarrow> (\<forall>(k, d) \<in> set (process_results t title ue es).
               CONFIDENCE_THRESHOLD \<le> data.score d)"
    using process_results_keeps_bound by blast
  from a b c show ?thesis by (intro conjI)
qed

theorem table_bounds_witness:
  "\<lparr>item.name = ''Wirata'', item.label = ''Location'', confidence = 0.7,
     entity_record.stories = [''Sakri Lahir'']\<rparr>
     \<in> set (run_ner_process
          (constant_pipeline [\<lparr>entity_group = ''LOC'', score = 0.7, start = 0, end_offset = 6\<rparr>])
          [\<lparr>Teks = ''Wirata dan wirata'', Judul = ''Sakri Lahir''\<rparr>])
   \<and> CONFIDENCE_THRESHOLD \<le> 0.7
   \<and> entity.score \<lparr>entity_group = ''PER'', score = 0.5, start = 0, end_offset = 6\<rparr>
        < CONFIDENCE_THRESHOLD
   \<and> process_results ''Wirata dan wirata'' ''Sakri Lahir''
        [(''Wirata'', \<lparr>data.label = ''Location'', data.score = 0.7, data.stories = {''Sakri Lahir''}\<rparr>)]
        [\<lparr>entity_group = ''PER'', score = 0.5, start = 0, end_offset = 6\<rparr>]
      = [(''Wirata'', \<lparr>data.label = ''Location'', data.score = 0.7, data.stories = {''Sakri Lahir''}\<rparr>)]
   \<and> (''Wirata'', \<lparr>data.label = ''Location'', data.score = 0.9, data.stories = {''Sakri Lahir''}\<rparr>)
       \<in> set (process_results ''Wirata dan wirata'' ''Sakri Lahir''
          [(''Wirata'', \<lparr>data.label = ''Location'', data.score = 0.7, data.stories = {''Sakri Lahir''}\<rparr>)]
          [\<lparr>entity_group = ''ORG'', score = 0.9, start = 0, end_offset = 6\<rparr>])
   \<and> CONFIDENCE_THRESHOLD \<le> 0.9"
proof -
  let ?p = "constant_pipeline [\<lparr>entity_group = ''LOC'', score = 0.7, start = 0, end_offset = 6\<rparr>]"
  let ?df = "[\<lparr>Teks = ''Wirata dan wirata'', Judul = ''Sakri Lahir''\<rparr>]"
  let ?r = "\<lparr>item.name = ''Wirata'', item.label = ''Location'', confidence = 0.7,
     entity_record.stories = [''Sakri Lahir'']\<rparr>"
  let ?low = "\<lparr>entity_group = ''PER'', score = 0.5, start = 0, end_offset = 6\<rparr>"
  let ?ue = "[(''Wirata'', \<lparr>data.label = ''Location'', data.score = 0.7, data.stories = {''Sakri Lahir''}\<rparr>)]"
  let ?es = "[\<lparr>entity_group = ''ORG'', score = 0.9, start = 0, end_offset = 6\<rparr>]"
  let ?d = "\<lparr>data.label = ''Location'', data.score = 0.9, data.stories = {''Sakri Lahir''}\<rparr>"
  note tb = table_bounds [of ?p ?df ?low "''Wirata dan wirata''" "''Sakri Lahir''" ?ue ?es]
  have run: "run_ner_process ?p ?df = [?r]" by code_simp
  then have mem: "?r \<in> set (run_ner_process ?p ?df)" by simp
  with tb have "CONFIDENCE_THRESHOLD \<le> confidence ?r" by blast
  then have c1: "CONFIDENCE_THRESHOLD \<le> 0.7" by simp
  have low: "entity.score ?low < CONFIDENCE_THRESHOLD" by (simp add: CONFIDENCE_THRESHOLD_def)
  with tb have keep: "process_results ''Wirata dan wirata'' ''Sakri Lahir'' ?ue [?low] = ?ue"
    by blast
  have inv: "\<forall>(k, d) \<in> set ?ue. CONFIDENCE_THRESHOLD \<le> data.score d"
    by (simp add: CONFIDENCE_THRESHOLD_def)
  have "process_results ''Wirata dan wirata'' ''Sakri Lahir'' ?ue ?es = [(''Wirata'', ?d)]"
    by code_simp
  then have mem2: "(''Wirata'', ?d) \<in> set (process_results ''Wirata dan wirata'' ''Sakri Lahir'' ?ue ?es)"
    by simp
  from tb inv have "\<forall>(k, d) \<in> set (process_results ''Wirata dan wirata'' ''Sakri Lahir'' ?ue ?es).
      CONFIDENCE_THRESHOLD \<le> data.score d"
    by blast
  with mem2 have "CONFIDENCE_THRESHOLD \<le> data.score ?d" by blast
  then have c2: "CONFIDENCE_THRESHOLD \<le> 0.9" by simp
  from mem c1 low keep mem2 c2 show ?thesis by (intro conjI)
qed

lemma low_score_rejected:
  "entity.score e < CONFIDENCE_THRESHOLD \<Longrightarrow> process_entity t title ue e = Inr ue"
  by (simp add: process_entity_def)

lemma junk_rejected:
  assumes "expand_to_full_word t (start e) (end_offset e) = Inr w"
      and "length (clean_entity_name w) < 3 \<or> clean_entity_name w \<in> BLOCKLIST"
  shows "process_entity t title ue e = Inr ue"
  using assms by (auto simp add: process_entity_def Let_def)

lemma raise_keeps_nothing:
  "expand_to_full_word t (start e) (end_offset e) = Inl err \<Longrightarrow>
   process_entity t title ue e = Inr ue' \<Longrightarrow> ue' = ue"
  by (auto simp add: process_entity_def Let_def split: if_splits)

text \<open>
  C7: a span changes the entity table only if its confidence is at least the threshold,
  its repaired and cleaned string has length at least 3, and that string is not in the
  blocklist. A span below the threshold is rejected whatever its offsets are, before it
  is repaired or cleaned; a span whose cleaned string is shorter than 3 characters or is
  a blocklist word is rejected. The threshold is 0.60.
\<close>

theorem span_filter:
  "(process_entity t title ue e = Inr ue' \<and> ue' \<noteq> ue \<longrightarrow>
      CONFIDENCE_THRESHOLD \<le> entity.score e
      \<and> (\<exists>w. expand_to_full_word t (start e) (end_offset e) = Inr w
             \<and> 3 \<le> length (clean_entity_name w) \<and> clean_entity_name w \<notin> BLOCKLIST))
   \<and> (entity.score e < CONFIDENCE_THRESHOLD \<longrightarrow> process_entity t title ue e = Inr ue)
   \<and> (expand_to_full_word t (start e) (end_offset e) = Inr w
        \<and> (length (clean_entity_name w) < 3 \<or> clean_entity_name w \<in> BLOCKLIST)
        \<longrightarrow> process_entity t title ue e = Inr ue)
   \<and> CONFIDENCE_THRESHOLD = 0.60"
proof -
  have a: "process_entity t title ue e = Inr ue' \<and> ue' \<noteq> ue \<longrightarrow>
      CONFIDENCE_THRESHOLD \<le> entity.score e
      \<and> (\<exists>w. expand_to_full_word t (start e) (end_offset e) = Inr w
             \<and> 3 \<le> length (clean_entity_name w) \<and> clean_entity_name w \<notin> BLOCKLIST)"
  proof
    assume h: "process_entity t title ue e = Inr ue' \<and> ue' \<noteq> ue"
    have c: "CONFIDENCE_THRESHOLD \<le> entity.score e"
    proof (rule ccontr)
      assume "\<not> CONFIDENCE_THRESHOLD \<le> entity.score e"
      then have "process_entity t title ue e = Inr ue"
        by (simp add: low_score_rejected)
      with h show False by auto
    qed
    have "\<exists>w. expand_to_full_word t (start e) (end_offset e) = Inr w
             \<and> 3 \<le> length (clean_entity_name w) \<and> clean_entity_name w \<notin> BLOCKLIST"
    proof (cases "expand_to_full_word t (start e) (end_offset e)")
      case (Inl err)
      from raise_keeps_nothing [OF this] h show ?thesis by blast
    next
      case (Inr w0)
      have "\<not> (length (clean_entity_name w0) < 3 \<or> clean_entity_name w0 \<in> BLOCKLIST)"
      proof
        assume "length (clean_entity_name w0) < 3 \<or> clean_entity_name w0 \<in> BLOCKLIST"
        from junk_rejected [OF Inr this] h show False by auto
      qed
      with Inr show ?thesis by auto
    qed
    with c show "CONFIDENCE_THRESHOLD \<le> entity.score e
      \<and> (\<exists>w. expand_to_full_word t (start e) (end_offset e) = Inr w
             \<and> 3 \<le> length (clean_entity_name w) \<and> clean_entity_name w \<notin> BLOCKLIST)"
      by simp
  qed
  have b: "entity.score e < CONFIDENCE_THRESHOLD \<longrightarrow> process_entity t title ue e = Inr ue"
    by (simp add: low_score_rejected)
  have c: "expand_to_full_word t (start e) (end_offset e) = Inr w
        \<and> (length (clean_entity_name w) < 3 \<or> clean_entity_name w \<in> BLOCKLIST)
        \<longrightarrow> process_entity t title ue e = Inr ue"
    using junk_rejected by blast
  have d: "CONFIDENCE_THRESHOLD = 0.60"
    by (simp add: CONFIDENCE_THRESHOLD_def)
  from a b c d show ?thesis by (intro conjI)
qed

theorem span_filter_witness:
  "process_entity ''Sang Wirata'' ''Sakri Lahir'' []
       \<lparr>entity_group = ''LOC'', score = 0.7, start = 5, end_offset = 9\<rparr>
     = Inr [(''Wirata'', \<lparr>data.label = ''Location'', data.score = 0.7,
                          data.stories = {''Sakri Lahir''}\<rparr>)]
   \<and> CONFIDENCE_THRESHOLD \<le> 0.7
   \<and> (\<exists>w. expand_to_full_word ''Sang Wirata'' 5 9 = Inr w
          \<and> 3 \<le> length (clean_entity_name w) \<and> clean_entity_name w \<notin> BLOCKLIST)
   \<and> (0.5::real) < CONFIDENCE_THRESHOLD
   \<and> process_entity ''Sang Wirata'' ''Sakri Lahir'' []
       \<lparr>entity_group = ''LOC'', score = 0.5, start = 5, end_offset = -100\<rparr> = Inr []
   \<and> expand_to_full_word ''Sang Wirata'' 0 4 = Inr ''Sang''
   \<and> clean_entity_name ''Sang'' \<in> BLOCKLIST
   \<and> process_entity ''Sang Wirata'' ''Sakri Lahir'' []
       \<lparr>entity_group = ''PER'', score = 0.99, start = 0, end_offset = 4\<rparr> = Inr []"
proof -
  let ?t = "''Sang Wirata''" and ?title = "''Sakri Lahir''"
  let ?ok = "\<lparr>entity_group = ''LOC'', score = 0.7, start = 5, end_offset = 9\<rparr>"
  let ?low = "\<lparr>entity_group = ''LOC'', score = 0.5, start = 5, end_offset = -100\<rparr>"
  let ?stop = "\<lparr>entity_group = ''PER'', score = 0.99, start = 0, end_offset = 4\<rparr>"
  let ?ue = "[(''Wirata'', \<lparr>data.label = ''Location'', data.score = 0.7,
                          data.stories = {''Sakri Lahir''}\<rparr>)]"
  have ok: "process_entity ?t ?title [] ?ok = Inr ?ue" by code_simp
  have ne: "?ue \<noteq> []" by simp
  from span_filter [of ?t ?title "[]" ?ok ?ue] ok ne
  have a: "CONFIDENCE_THRESHOLD \<le> entity.score ?ok
      \<and> (\<exists>w. expand_to_full_word ?t (start ?ok) (end_offset ?ok) = Inr w
             \<and> 3 \<le> length (clean_entity_name w) \<and> clean_entity_name w \<notin> BLOCKLIST)"
    by blast
  have lt: "entity.score ?low < CONFIDENCE_THRESHOLD" by (simp add: CONFIDENCE_THRESHOLD_def)
  from span_filter [of ?t ?title "[]" ?low] lt
  have b: "process_entity ?t ?title [] ?low = Inr []" by blast
  have ex: "expand_to_full_word ?t (start ?stop) (end_offset ?stop) = Inr ''Sang''" by code_simp
  have bl: "clean_entity_name ''Sang'' \<in> BLOCKLIST" by code_simp
  from span_filter [of ?t ?title "[]" ?stop _ "''Sang''"] ex bl
  have c: "process_entity ?t ?title [] ?stop = Inr []" by blast
  from ok a lt b ex bl c show ?thesis by simp
qed

section \<open>Aggregation\<close>

lemma finite_titles: "finite (story_title ` set ss)"
  by simp

lemma sighting_has_entry:
  assumes "s \<in> set (sightings p df)"
  shows "\<exists>r \<in> set (run_ner_process p df).
           item.name r = clean_word s \<and> story_title s \<in> set (entity_record.stories r)
           \<and> sighted_score s \<le> confidence r"
proof -
  let ?k = "clean_word s"
  from assms have mem: "s \<in> set (sightings_of ?k (sightings p df))"
    by (rule sightings_of_mem)
  then obtain s0 ks where sk: "sightings_of ?k (sightings p df) = s0 # ks"
    by (cases "sightings_of ?k (sightings p df)") auto
  let ?r = "\<lparr>item.name = ?k, item.label = sighted_label s0,
             confidence = Max (sighted_score ` set (s0 # ks)),
             entity_record.stories = sorted_list_of_set (story_title ` set (s0 # ks))\<rparr>"
  have "?r \<in> set (run_ner_process p df)"
    unfolding run_entry [of ?r] using sk by auto
  moreover have "story_title s \<in> set (entity_record.stories ?r)"
    using mem sk by (simp add: set_sorted_list_of_set del: set_simps) 
  moreover have "sighted_score s \<le> confidence ?r"
  proof -
    have "sighted_score s \<in> sighted_score ` set (s0 # ks)" using mem sk by auto
    then have "sighted_score s \<le> Max (sighted_score ` set (s0 # ks))"
      by (intro Max_ge) simp_all
    then show ?thesis by simp
  qed
  moreover have "item.name ?r = ?k" by simp
  ultimately show ?thesis by blast
qed

lemma entry_has_sighting:
  assumes "r \<in> set (run_ner_process p df)"
  shows "\<exists>s \<in> set (sightings p df). clean_word s = item.name r"
proof -
  from assms obtain s0 ks where sk: "sightings_of (item.name r) (sightings p df) = s0 # ks"
    unfolding run_entry by blast
  then have "s0 \<in> set (sightings_of (item.name r) (sightings p df))" by simp
  then have "s0 \<in> set (sightings p df)" and "clean_word s0 = item.name r"
    using sightings_of_subset sightings_of_key by blast+
  then show ?thesis by blast
qed

lemma distinct_names_run: "distinct (map item.name (run_ner_process p df))"
  unfolding run_ner_process_sightings
  by (rule distinct_format_output, rule distinct_fold_merge) simp

lemma same_name_same_entry:
  assumes "r1 \<in> set (run_ner_process p df)" and "r2 \<in> set (run_ner_process p df)"
      and "item.name r1 = item.name r2"
  shows "r1 = r2"
proof -
  from distinct_names_run [of p df] have "inj_on item.name (set (run_ner_process p df))"
    by (simp add: distinct_map)
  with assms show ?thesis by (rule_tac inj_onD)
qed

text \<open>
  C1 (amended): the identity of an aggregated entity is its cleaned name, compared
  exactly and with case. No two records of the final table have the same name. Every
  sighting has a record under its cleaned name, which holds its story title and a
  confidence at least its score, and every record comes from a sighting. Two sightings
  are filed in the same record if and only if their cleaned names are equal.
\<close>

theorem aggregation_key:
  "distinct (map item.name (run_ner_process ner_pipeline df))
   \<and> (\<forall>s \<in> set (sightings ner_pipeline df). \<exists>r \<in> set (run_ner_process ner_pipeline df).
         item.name r = clean_word s \<and> story_title s \<in> set (entity_record.stories r)
         \<and> sighted_score s \<le> confidence r)
   \<and> (\<forall>r \<in> set (run_ner_process ner_pipeline df). \<exists>s \<in> set (sightings ner_pipeline df).
         clean_word s = item.name r)
   \<and> (\<forall>s1 \<in> set (sightings ner_pipeline df). \<forall>s2 \<in> set (sightings ner_pipeline df).
       \<forall>r1 \<in> set (run_ner_process ner_pipeline df). \<forall>r2 \<in> set (run_ner_process ner_pipeline df).
         item.name r1 = clean_word s1 \<and> item.name r2 = clean_word s2
         \<longrightarrow> (r1 = r2 \<longleftrightarrow> clean_word s1 = clean_word s2))"
proof -
  have a: "distinct (map item.name (run_ner_process ner_pipeline df))"
    by (rule distinct_names_run)
  have b: "\<forall>s \<in> set (sightings ner_pipeline df). \<exists>r \<in> set (run_ner_process ner_pipeline df).
         item.name r = clean_word s \<and> story_title s \<in> set (entity_record.stories r)
         \<and> sighted_score s \<le> confidence r"
    using sighting_has_entry by blast
  have c: "\<forall>r \<in> set (run_ner_process ner_pipeline df). \<exists>s \<in> set (sightings ner_pipeline df).
         clean_word s = item.name r"
    using entry_has_sighting by blast
  have d: "\<forall>s1 \<in> set (sightings ner_pipeline df). \<forall>s2 \<in> set (sightings ner_pipeline df).
       \<forall>r1 \<in> set (run_ner_process ner_pipeline df). \<forall>r2 \<in> set (run_ner_process ner_pipeline df).
         item.name r1 = clean_word s1 \<and> item.name r2 = clean_word s2
         \<longrightarrow> (r1 = r2 \<longleftrightarrow> clean_word s1 = clean_word s2)"
    using same_name_same_entry [of _ ner_pipeline df] by metis
  from a b c d show ?thesis by (intro conjI)
qed

theorem aggregation_key_witness:
  "sightings
     (constant_pipeline [\<lparr>entity_group = ''LOC'', score = 0.7, start = 0, end_offset = 6\<rparr>,
                         \<lparr>entity_group = ''ORG'', score = 0.9, start = 11, end_offset = 17\<rparr>])
     [\<lparr>Teks = ''Wirata dan wirata'', Judul = ''Sakri Lahir''\<rparr>]
     = [\<lparr>clean_word = ''Wirata'', sighted_label = ''Location'', sighted_score = 0.7,
         story_title = ''Sakri Lahir''\<rparr>,
        \<lparr>clean_word = ''wirata'', sighted_label = ''Organization'', sighted_score = 0.9,
         story_title = ''Sakri Lahir''\<rparr>]
   \<and> distinct (map item.name (run_ner_process
       (constant_pipeline [\<lparr>entity_group = ''LOC'', score = 0.7, start = 0, end_offset = 6\<rparr>,
                           \<lparr>entity_group = ''ORG'', score = 0.9, start = 11, end_offset = 17\<rparr>])
       [\<lparr>Teks = ''Wirata dan wirata'', Judul = ''Sakri Lahir''\<rparr>]))
   \<and> (\<exists>r \<in> set (run_ner_process
       (constant_pipeline [\<lparr>entity_group = ''LOC'', score = 0.7, start = 0, end_offset = 6\<rparr>,
                           \<lparr>entity_group = ''ORG'', score = 0.9, start = 11, end_offset = 17\<rparr>])
       [\<lparr>Teks = ''Wirata dan wirata'', Judul = ''Sakri Lahir''\<rparr>]).
         item.name r = ''Wirata'' \<and> ''Sakri Lahir'' \<in> set (entity_record.stories r)
         \<and> 0.7 \<le> confidence r)
   \<and> (\<exists>s \<in> set (sightings
       (constant_pipeline [\<lparr>entity_group = ''LOC'', score = 0.7, start = 0, end_offset = 6\<rparr>,
                           \<lparr>entity_group = ''ORG'', score = 0.9, start = 11, end_offset = 17\<rparr>])
       [\<lparr>Teks = ''Wirata dan wirata'', Judul = ''Sakri Lahir''\<rparr>]). clean_word s = ''wirata'')"
proof -
  let ?p = "constant_pipeline [\<lparr>entity_group = ''LOC'', score = 0.7, start = 0, end_offset = 6\<rparr>,
                         \<lparr>entity_group = ''ORG'', score = 0.9, start = 11, end_offset = 17\<rparr>]"
  let ?df = "[\<lparr>Teks = ''Wirata dan wirata'', Judul = ''Sakri Lahir''\<rparr>]"
  let ?s1 = "\<lparr>clean_word = ''Wirata'', sighted_label = ''Location'', sighted_score = 0.7,
         story_title = ''Sakri Lahir''\<rparr>"
  let ?s2 = "\<lparr>clean_word = ''wirata'', sighted_label = ''Organization'', sighted_score = 0.9,
         story_title = ''Sakri Lahir''\<rparr>"
  let ?r2 = "\<lparr>item.name = ''wirata'', item.label = ''Organization'', confidence = 0.9,
         entity_record.stories = [''Sakri Lahir'']\<rparr>"
  note ak = aggregation_key [of ?p ?df]
  have ss: "sightings ?p ?df = [?s1, ?s2]" by code_simp
  then have m1: "?s1 \<in> set (sightings ?p ?df)" by simp
  from ak have d: "distinct (map item.name (run_ner_process ?p ?df))" by blast
  from ak m1 have "\<exists>r \<in> set (run_ner_process ?p ?df).
         item.name r = clean_word ?s1 \<and> story_title ?s1 \<in> set (entity_record.stories r)
         \<and> sighted_score ?s1 \<le> confidence r"
    by blast
  then have e1: "\<exists>r \<in> set (run_ner_process ?p ?df).
         item.name r = ''Wirata'' \<and> ''Sakri Lahir'' \<in> set (entity_record.stories r)
         \<and> 0.7 \<le> confidence r"
    by simp
  have "run_ner_process ?p ?df
      = [\<lparr>item.name = ''Wirata'', item.label = ''Location'', confidence = 0.7,
           entity_record.stories = [''Sakri Lahir'']\<rparr>, ?r2]"
    by code_simp
  then have "?r2 \<in> set (run_ner_process ?p ?df)" by simp
  with ak have "\<exists>s \<in> set (sightings ?p ?df). clean_word s = item.name ?r2" by blast
  then have e2: "\<exists>s \<in> set (sightings ?p ?df). clean_word s = ''wirata''" by simp
  from ss d e1 e2 show ?thesis by (intro conjI)
qed

text \<open>
  C1 (as stated, refuted): with the key read as the lowercased, trimmed name, the table
  would hold no two records whose lowercased, trimmed names are equal. The spans
  "Wirata" and "wirata" of one text give two records, and their lowercased names are
  the same.
\<close>

theorem aggregation_key_counterexample:
  "\<not> distinct (map (normalize \<circ> item.name) (run_ner_process
       (constant_pipeline [\<lparr>entity_group = ''LOC'', score = 0.7, start = 0, end_offset = 6\<rparr>,
                           \<lparr>entity_group = ''ORG'', score = 0.9, start = 11, end_offset = 17\<rparr>])
       [\<lparr>Teks = ''Wirata dan wirata'', Judul = ''Sakri Lahir''\<rparr>]))"
  by code_simp

text \<open>
  C5 (amended): the merge policy, for the sightings filed under one cleaned name (the
  key of the table, compared exactly). The record of that name keeps the label of the
  first sighting, its confidence is the maximum score over all the sightings of the
  name, so in whatever order they came, and its stories are the titles of all of them.
\<close>

theorem merge_policy:
  assumes "sightings_of k (sightings ner_pipeline df) = s0 # ks"
  shows "(\<exists>r \<in> set (run_ner_process ner_pipeline df). item.name r = k)
     \<and> (\<forall>r \<in> set (run_ner_process ner_pipeline df). item.name r = k \<longrightarrow>
           item.label r = sighted_label s0
           \<and> confidence r = Max (sighted_score ` set (s0 # ks))
           \<and> set (entity_record.stories r) = story_title ` set (s0 # ks))"
proof -
  let ?r = "\<lparr>item.name = k, item.label = sighted_label s0,
             confidence = Max (sighted_score ` set (s0 # ks)),
             entity_record.stories = sorted_list_of_set (story_title ` set (s0 # ks))\<rparr>"
  have "?r \<in> set (run_ner_process ner_pipeline df)"
    unfolding run_entry [of ?r] using assms by auto
  moreover have "item.name ?r = k" by simp
  ultimately have a: "\<exists>r \<in> set (run_ner_process ner_pipeline df). item.name r = k" by blast
  have b: "\<forall>r \<in> set (run_ner_process ner_pipeline df). item.name r = k \<longrightarrow>
           item.label r = sighted_label s0
           \<and> confidence r = Max (sighted_score ` set (s0 # ks))
           \<and> set (entity_record.stories r) = story_title ` set (s0 # ks)"
  proof (intro ballI impI)
    fix r
    assume r: "r \<in> set (run_ner_process ner_pipeline df)" and k: "item.name r = k"
    from r obtain s0' ks' where sk: "sightings_of (item.name r) (sightings ner_pipeline df) = s0' # ks'"
      and req: "r = \<lparr>item.name = item.name r, item.label = sighted_label s0',
                 confidence = Max (sighted_score ` set (s0' # ks')),
                 entity_record.stories = sorted_list_of_set (story_title ` set (s0' # ks'))\<rparr>"
      unfolding run_entry by blast
    from sk k assms have same: "s0' = s0" "ks' = ks" by simp_all
    have "item.label r = sighted_label s0'" by (subst req) simp
    moreover have "confidence r = Max (sighted_score ` set (s0' # ks'))" by (subst req) simp
    moreover have "entity_record.stories r = sorted_list_of_set (story_title ` set (s0' # ks'))"
      by (subst req) simp
    then have "set (entity_record.stories r) = story_title ` set (s0' # ks')"
      by (simp only: set_sorted_list_of_set [OF finite_titles])
    ultimately show "item.label r = sighted_label s0
           \<and> confidence r = Max (sighted_score ` set (s0 # ks))
           \<and> set (entity_record.stories r) = story_title ` set (s0 # ks)"
      using same by simp
  qed
  from a b show ?thesis by (intro conjI)
qed

theorem merge_policy_witness:
  "sightings_of ''Wirata'' (sightings
     (constant_pipeline [\<lparr>entity_group = ''LOC'', score = 0.7, start = 0, end_offset = 6\<rparr>,
                         \<lparr>entity_group = ''ORG'', score = 0.9, start = 11, end_offset = 17\<rparr>])
     [\<lparr>Teks = ''Wirata dan Wirata'', Judul = ''Sakri Lahir''\<rparr>,
      \<lparr>Teks = ''Wirata dan Wirata'', Judul = ''Hastimurti Gugur''\<rparr>])
     = [\<lparr>clean_word = ''Wirata'', sighted_label = ''Location'', sighted_score = 0.7,
         story_title = ''Sakri Lahir''\<rparr>,
        \<lparr>clean_word = ''Wirata'', sighted_label = ''Organization'', sighted_score = 0.9,
         story_title = ''Sakri Lahir''\<rparr>,
        \<lparr>clean_word = ''Wirata'', sighted_label = ''Location'', sighted_score = 0.7,
         story_title = ''Hastimurti Gugur''\<rparr>,
        \<lparr>clean_word = ''Wirata'', sighted_label = ''Organization'', sighted_score = 0.9,
         story_title = ''Hastimurti Gugur''\<rparr>]
   \<and> (\<exists>r \<in> set (run_ner_process
       (constant_pipeline [\<lparr>entity_group = ''LOC'', score = 0.7, start = 0, end_offset = 6\<rparr>,
                           \<lparr>entity_group = ''ORG'', score = 0.9, start = 11, end_offset = 17\<rparr>])
       [\<lparr>Teks = ''Wirata dan Wirata'', Judul = ''Sakri Lahir''\<rparr>,
        \<lparr>Teks = ''Wirata dan Wirata'', Judul = ''Hastimurti Gugur''\<rparr>]).
         item.name r = ''Wirata'' \<and> item.label r = ''Location'' \<and> confidence r = 0.9
         \<and> set (entity_record.stories r) = {''Sakri Lahir'', ''Hastimurti Gugur''})"
proof -
  let ?p = "constant_pipeline [\<lparr>entity_group = ''LOC'', score = 0.7, start = 0, end_offset = 6\<rparr>,
                         \<lparr>entity_group = ''ORG'', score = 0.9, start = 11, end_offset = 17\<rparr>]"
  let ?df = "[\<lparr>Teks = ''Wirata dan Wirata'', Judul = ''Sakri Lahir''\<rparr>,
      \<lparr>Teks = ''Wirata dan Wirata'', Judul = ''Hastimurti Gugur''\<rparr>]"
  let ?s0 = "\<lparr>clean_word = ''Wirata'', sighted_label = ''Location'', sighted_score = 0.7,
         story_title = ''Sakri Lahir''\<rparr>"
  let ?ks = "[\<lparr>clean_word = ''Wirata'', sighted_label = ''Organization'', sighted_score = 0.9,
         story_title = ''Sakri Lahir''\<rparr>,
        \<lparr>clean_word = ''Wirata'', sighted_label = ''Location'', sighted_score = 0.7,
         story_title = ''Hastimurti Gugur''\<rparr>,
        \<lparr>clean_word = ''Wirata'', sighted_label = ''Organization'', sighted_score = 0.9,
         story_title = ''Hastimurti Gugur''\<rparr>]"
  have ss: "sightings_of ''Wirata'' (sightings ?p ?df) = ?s0 # ?ks" by code_simp
  note mp = merge_policy [OF ss]
  from mp obtain r where r: "r \<in> set (run_ner_process ?p ?df)" "item.name r = ''Wirata''"
    by blast
  with mp have v: "item.label r = sighted_label ?s0"
      "confidence r = Max (sighted_score ` set (?s0 # ?ks))"
      "set (entity_record.stories r) = story_title ` set (?s0 # ?ks)"
    by blast+
  from v(1) have l: "item.label r = ''Location''" by simp
  from v(2) have c: "confidence r = 0.9" by simp
  from v(3) have t: "set (entity_record.stories r) = {''Sakri Lahir'', ''Hastimurti Gugur''}"
    by auto
  from r l c t have "\<exists>r \<in> set (run_ner_process ?p ?df).
         item.name r = ''Wirata'' \<and> item.label r = ''Location'' \<and> confidence r = 0.9
         \<and> set (entity_record.stories r) = {''Sakri Lahir'', ''Hastimurti Gugur''}"
    by blast
  with ss show ?thesis by simp
qed

text \<open>
  C5 (as stated, refuted): with the key read as the lowercased, trimmed name, the two
  sightings "Gilingwesi" (Person, 0.7) and "gilingwesi" (Organization, 0.9) are
  sightings of one key, so one record would hold the first label, Person, and the
  maximum, 0.9. The table holds two records: one with Person and 0.7, one with
  Organization and 0.9.
\<close>

theorem merge_policy_counterexample:
  "map (normalize \<circ> clean_word) (sightings
     (constant_pipeline [\<lparr>entity_group = ''PER'', score = 0.7, start = 0, end_offset = 10\<rparr>,
                         \<lparr>entity_group = ''ORG'', score = 0.9, start = 15, end_offset = 25\<rparr>])
     [\<lparr>Teks = ''Gilingwesi dan gilingwesi'', Judul = ''Sakri Lahir''\<rparr>])
     = [''gilingwesi'', ''gilingwesi'']
   \<and> map sighted_label (sightings
     (constant_pipeline [\<lparr>entity_group = ''PER'', score = 0.7, start = 0, end_offset = 10\<rparr>,
                         \<lparr>entity_group = ''ORG'', score = 0.9, start = 15, end_offset = 25\<rparr>])
     [\<lparr>Teks = ''Gilingwesi dan gilingwesi'', Judul = ''Sakri Lahir''\<rparr>])
     = [''Person'', ''Organization'']
   \<and> map sighted_score (sightings
     (constant_pipeline [\<lparr>entity_group = ''PER'', score = 0.7, start = 0, end_offset = 10\<rparr>,
                         \<lparr>entity_group = ''ORG'', score = 0.9, start = 15, end_offset = 25\<rparr>])
     [\<lparr>Teks = ''Gilingwesi dan gilingwesi'', Judul = ''Sakri Lahir''\<rparr>])
     = [0.7, 0.9]
   \<and> run_ner_process
     (constant_pipeline [\<lparr>entity_group = ''PER'', score = 0.7, start = 0, end_offset = 10\<rparr>,
                         \<lparr>entity_group = ''ORG'', score = 0.9, start = 15, end_offset = 25\<rparr>])
     [\<lparr>Teks = ''Gilingwesi dan gilingwesi'', Judul = ''Sakri Lahir''\<rparr>]
     = [\<lparr>item.name = ''Gilingwesi'', item.label = ''Person'', confidence = 0.7,
         entity_record.stories = [''Sakri Lahir'']\<rparr>,
        \<lparr>item.name = ''gilingwesi'', item.label = ''Organization'', confidence = 0.9,
         entity_record.stories = [''Sakri Lahir'']\<rparr>]"
  by code_simp

end
